theory Spec2Isabelle
  imports Complex_Main "HOL-Library.Sublist"
begin

section \<open>The GraphQL syntax tree the plugin inspects\<close>

text \<open>
  The node inspectors of \<^verbatim>\<open>packages/sdk-plugin/src\<close> read a few fields of the syntax
  tree of the \<^verbatim>\<open>graphql\<close> package. Every node carries a \<^verbatim>\<open>kind\<close> tag of the enumeration
  \<^verbatim>\<open>Kind\<close>; the four tags the source tests are kept, every other tag of the enumeration
  is \<open>OTHER_KIND\<close> with its text.
\<close>

datatype kind = NAME | NAMED_TYPE | LIST_TYPE | NON_NULL_TYPE | OTHER_KIND string

text \<open>\<^verbatim>\<open>NameNode { kind: Kind.NAME, value: string }\<close>\<close>

datatype name_node = NameNode (name_value: string)

text \<open>
  \<^verbatim>\<open>TypeNode = NamedTypeNode | ListTypeNode | NonNullTypeNode\<close>: a named type holds a
  \<^verbatim>\<open>name\<close>, the two wrappers hold the wrapped \<^verbatim>\<open>type\<close>.
\<close>

datatype type_node =
    NamedTypeNode name_node
  | ListTypeNode type_node
  | NonNullTypeNode type_node

text \<open>The \<^verbatim>\<open>kind\<close> field of a type node, fixed by its class.\<close>

fun type_kind :: "type_node \<Rightarrow> kind" where
  "type_kind (NamedTypeNode n) = NAMED_TYPE"
| "type_kind (ListTypeNode t) = LIST_TYPE"
| "type_kind (NonNullTypeNode t) = NON_NULL_TYPE"

text \<open>
  A default value is a \<^verbatim>\<open>ValueNode\<close>: an object, whatever it denotes (the literal
  \<^verbatim>\<open>null\<close> is the object \<^verbatim>\<open>{ kind: "NullValue" }\<close>).
\<close>

datatype value_node =
    IntValue string
  | FloatValue string
  | StringValue string
  | BooleanValue bool
  | NullValue
  | EnumValue string
  | ListValue "value_node list"

text \<open>\<^verbatim>\<open>VariableNode { kind: Kind.VARIABLE, name: NameNode }\<close>\<close>

datatype variable_node = VariableNode (variable_name: name_node)

text \<open>
  \<^verbatim>\<open>VariableDefinitionNode { variable, type, defaultValue? }\<close>; an absent default value
  is \<open>None\<close>.
\<close>

record variable_definition_node =
  variable :: variable_node
  vtype :: type_node
  defaultValue :: "value_node option"

text \<open>
  \<^verbatim>\<open>OperationDefinitionNode\<close>: of its fields the inspectors read only the optional
  \<^verbatim>\<open>variableDefinitions\<close>.
\<close>

record operation_definition_node =
  variableDefinitions :: "variable_definition_node list option"

text \<open>
  Modelled from the spec: the type \<^verbatim>\<open>ApiDefinition\<close> of \<^verbatim>\<open>./types\<close>, which the source
  imports. An operation document is the syntax node of one operation plus a path, the
  ordered sequence of prior key segments (the empty path is a root operation).
\<close>

record api_definition =
  node :: operation_definition_node
  path :: "string list"

text \<open>
  Modelled from the spec: the constant \<^verbatim>\<open>c.ID_NAME\<close> of \<^verbatim>\<open>./constants\<close>, the fixed
  reserved name of the identifier-convention variable. The source's comment on
  \<^verbatim>\<open>isIdVariable\<close> reads "Is the variable named id and is it required".
\<close>

definition ID_NAME :: string where
  "ID_NAME = ''id''"

section \<open>The node inspectors\<close>

text \<open>\<^verbatim>\<open>return v.type.kind === Kind.NON_NULL_TYPE\<close>\<close>

definition isRequiredVariable :: "variable_definition_node \<Rightarrow> bool" where
  "isRequiredVariable v = (type_kind (vtype v) = NON_NULL_TYPE)"

text \<open>\<^verbatim>\<open>return v.variable.name.value === c.ID_NAME && isRequiredVariable(v)\<close>\<close>

definition isIdVariable :: "variable_definition_node \<Rightarrow> bool" where
  "isIdVariable v =
     (name_value (variable_name (variable v)) = ID_NAME \<and> isRequiredVariable v)"

text \<open>
  The callback of \<^verbatim>\<open>every\<close> in \<^verbatim>\<open>hasOptionalVariable\<close>:
  \<^verbatim>\<open>(o.path.length ? isIdVariable(v) : false) || !isRequiredVariable(v) || v.defaultValue\<close>.
  Its last operand is the default value itself, which \<^verbatim>\<open>every\<close> reads as true when it is
  present (an object) and as false when it is absent.
\<close>

definition optional_at :: "string list \<Rightarrow> variable_definition_node \<Rightarrow> bool" where
  "optional_at p v =
     ((if length p \<noteq> 0 then isIdVariable v else False)
      \<or> \<not> isRequiredVariable v
      \<or> defaultValue v \<noteq> None)"

text \<open>
  \<^verbatim>\<open>!o.node.variableDefinitions || o.node.variableDefinitions.length === 0 ||
  o.node.variableDefinitions.every(...)\<close>
\<close>

definition hasOptionalVariable :: "api_definition \<Rightarrow> bool" where
  "hasOptionalVariable d =
     (case variableDefinitions (node d) of
        None \<Rightarrow> True
      | Some vs \<Rightarrow> length vs = 0 \<or> list_all (optional_at (path d)) vs)"

text \<open>
  \<^verbatim>\<open>Boolean(o.node.variableDefinitions?.some(v => v.variable.name.value === variableName))\<close>:
  on an absent list the optional chain gives \<^verbatim>\<open>undefined\<close>, which \<^verbatim>\<open>Boolean\<close> maps to
  false.
\<close>

definition hasVariable :: "api_definition \<Rightarrow> string \<Rightarrow> bool" where
  "hasVariable d variableName =
     (case variableDefinitions (node d) of
        None \<Rightarrow> False
      | Some vs \<Rightarrow> list_ex (\<lambda>v. name_value (variable_name (variable v)) = variableName) vs)"

text \<open>
  \<^verbatim>\<open>Boolean(o.node.variableDefinitions?.some(v => v.variable.name.value !== variableName))\<close>
\<close>

definition hasOtherVariable :: "api_definition \<Rightarrow> string \<Rightarrow> bool" where
  "hasOtherVariable d variableName =
     (case variableDefinitions (node d) of
        None \<Rightarrow> False
      | Some vs \<Rightarrow> list_ex (\<lambda>v. name_value (variable_name (variable v)) \<noteq> variableName) vs)"

subsection \<open>Type-name resolution\<close>

text \<open>
  \<^verbatim>\<open>getTypeName\<close> dispatches at run time, on \<^verbatim>\<open>typeof\<close> and on the \<^verbatim>\<open>kind\<close> tag, and ends
  in a fallback for values its signature excludes. Its argument is therefore a run-time
  value: a primitive, or an object with a \<^verbatim>\<open>kind\<close> tag and the fields \<^verbatim>\<open>type\<close>,
  \<^verbatim>\<open>name\<close> and \<^verbatim>\<open>value\<close> the function reads (\<open>JUndefined\<close> where the object has no
  such field; an object with no \<^verbatim>\<open>kind\<close> behaves as one of an other kind). A number
  is \<open>NaN\<close>, an infinity or a finite value (both zeros are \<open>Finite 0\<close>).
\<close>

datatype js_number = NaN | PositiveInfinity | NegativeInfinity | Finite rat

datatype js_value =
    JUndefined
  | JNull
  | JBoolean bool
  | JNumber js_number
  | JString string
  | JNode kind js_value js_value js_value

text \<open>Arguments of \<open>JNode\<close>: the fields \<^verbatim>\<open>kind\<close>, \<^verbatim>\<open>type\<close>, \<^verbatim>\<open>name\<close>, \<^verbatim>\<open>value\<close>.\<close>

datatype js_error =
    Error string
  | TypeError string
  | Thrown js_value

text \<open>
  The conditional chain of \<^verbatim>\<open>getTypeName\<close>, in the source's order. Reading \<^verbatim>\<open>.kind\<close> of
  \<^verbatim>\<open>undefined\<close> or \<^verbatim>\<open>null\<close> is a \<^verbatim>\<open>TypeError\<close> of the runtime; on a boolean or a
  number it reads \<^verbatim>\<open>undefined\<close>, which equals no \<^verbatim>\<open>Kind\<close>.
\<close>

fun getTypeName :: "js_value \<Rightarrow> js_error + string" where
  "getTypeName (JString s) = Inr s"
| "getTypeName JUndefined = Inl (TypeError ''Cannot read properties of undefined'')"
| "getTypeName JNull = Inl (TypeError ''Cannot read properties of null'')"
| "getTypeName (JBoolean b) = Inr ''UNKNOWN_OPERATION_TYPE''"
| "getTypeName (JNumber n) = Inr ''UNKNOWN_OPERATION_TYPE''"
| "getTypeName (JNode k ty nm vl) =
     (if k = NON_NULL_TYPE then getTypeName ty
      else if k = NAMED_TYPE then getTypeName nm
      else if k = NAME then getTypeName vl
      else if k = LIST_TYPE then getTypeName ty
      else Inr ''UNKNOWN_OPERATION_TYPE'')"

text \<open>The run-time objects of the typed syntax nodes.\<close>

fun js_of_name :: "name_node \<Rightarrow> js_value" where
  "js_of_name (NameNode s) = JNode NAME JUndefined JUndefined (JString s)"

fun js_of_type :: "type_node \<Rightarrow> js_value" where
  "js_of_type (NamedTypeNode n) = JNode NAMED_TYPE JUndefined (js_of_name n) JUndefined"
| "js_of_type (ListTypeNode t) = JNode LIST_TYPE (js_of_type t) JUndefined JUndefined"
| "js_of_type (NonNullTypeNode t) = JNode NON_NULL_TYPE (js_of_type t) JUndefined JUndefined"

text \<open>
  The specification's reading of type-name resolution, to compare \<open>getTypeName\<close> with:
  unwrap non-null and list wrappers recursively and return the innermost named type's
  string name.
\<close>

fun spec_innermost_name :: "type_node \<Rightarrow> string" where
  "spec_innermost_name (NamedTypeNode n) = name_value n"
| "spec_innermost_name (ListTypeNode t) = spec_innermost_name t"
| "spec_innermost_name (NonNullTypeNode t) = spec_innermost_name t"

text \<open>Wrapping a run-time value in a non-null or a list wrapper object.\<close>

definition non_null_of :: "js_value \<Rightarrow> js_value" where
  "non_null_of x = JNode NON_NULL_TYPE x JUndefined JUndefined"

definition list_of_type :: "js_value \<Rightarrow> js_value" where
  "list_of_type x = JNode LIST_TYPE x JUndefined JUndefined"

section \<open>The plugin's entry points\<close>

subsection \<open>Configuration values and logging\<close>

text \<open>
  \<^verbatim>\<open>!x\<close> and \<^verbatim>\<open>typeof x\<close> of the runtime, as \<^verbatim>\<open>validate\<close> applies them to a configuration
  field.
\<close>

fun truthy :: "js_value \<Rightarrow> bool" where
  "truthy JUndefined = False"
| "truthy JNull = False"
| "truthy (JBoolean b) = b"
| "truthy (JNumber n) = (n \<noteq> NaN \<and> n \<noteq> Finite 0)"
| "truthy (JString s) = (length s \<noteq> 0)"
| "truthy (JNode k ty nm vl) = True"

fun typeof :: "js_value \<Rightarrow> string" where
  "typeof JUndefined = ''undefined''"
| "typeof JNull = ''object''"
| "typeof (JBoolean b) = ''boolean''"
| "typeof (JNumber n) = ''number''"
| "typeof (JString s) = ''string''"
| "typeof (JNode k ty nm vl) = ''object''"

text \<open>
  \<^verbatim>\<open>DocumentMode\<close> of \<^verbatim>\<open>@graphql-codegen/visitor-plugin-common\<close>; the member
  \<^verbatim>\<open>DocumentMode.string\<close> is \<open>DocumentMode_string\<close>.
\<close>

datatype DocumentMode =
    DocumentMode_graphQLTag
  | DocumentMode_documentNode
  | DocumentMode_documentNodeImportFragments
  | DocumentMode_external
  | DocumentMode_string

text \<open>
  Modelled from the spec: the type \<^verbatim>\<open>RawSdkPluginConfig\<close> of \<^verbatim>\<open>./config\<close>, a
  configuration object with a document-source-file path and a document-emission-mode
  flag. The path is kept as the run-time value the host passes, since \<^verbatim>\<open>validate\<close> tests
  its type; an unset mode is \<open>None\<close>.
\<close>

record RawSdkPluginConfig =
  documentFile :: js_value
  documentMode :: "DocumentMode option"

text \<open>
  Modelled from the spec: the \<^verbatim>\<open>logger\<close> of \<^verbatim>\<open>@linear/common\<close>, observability glue
  that records a message at a level and returns. A call appends one entry to the log.
\<close>

datatype log_entry =
    LogInfo string
  | LogDebugConfig RawSdkPluginConfig
  | LogDebugCounts "(string \<times> nat) list"
  | LogFatal js_error

subsection \<open>The extension of a path\<close>

text \<open>
  \<^verbatim>\<open>extname\<close> is the function of the runtime's \<^verbatim>\<open>path\<close> module; \<open>validate\<close> below takes
  it as a parameter. \<open>posix_extname\<close> is the runtime's POSIX implementation, for concrete
  paths: a scan from the end of the path that skips trailing separators, stops at the
  separator before the last portion, and records the last dot of that portion.
  \<open>preDotState\<close> is \<open>0\<close> while no character has been seen before the dot, \<open>-1\<close> once
  one other than a dot was seen, \<open>1\<close> when only dots were seen.
\<close>

record extname_state =
  startDot :: int
  startPart :: int
  endPos :: int
  matchedSlash :: bool
  preDotState :: int

fun extname_loop :: "string \<Rightarrow> nat \<Rightarrow> extname_state \<Rightarrow> extname_state" where
  "extname_loop p 0 s = s"
| "extname_loop p (Suc i) s =
     (if p ! i = CHR ''/'' then
        (if \<not> matchedSlash s then s\<lparr>startPart := int i + 1\<rparr>
         else extname_loop p i s)
      else
        (let s1 = (if endPos s = - 1 then s\<lparr>endPos := int i + 1, matchedSlash := False\<rparr>
                   else s);
             s2 = (if p ! i = CHR ''.'' then
                     (if startDot s1 = - 1 then s1\<lparr>startDot := int i\<rparr>
                      else if preDotState s1 \<noteq> 1 then s1\<lparr>preDotState := 1\<rparr>
                      else s1)
                   else if startDot s1 \<noteq> - 1 then s1\<lparr>preDotState := - 1\<rparr>
                   else s1)
         in extname_loop p i s2))"

definition posix_extname :: "string \<Rightarrow> string" where
  "posix_extname p =
     (let s = extname_loop p (length p)
                \<lparr>startDot = - 1, startPart = 0, endPos = - 1, matchedSlash = True,
                 preDotState = 0\<rparr>
      in if startDot s = - 1 \<or> endPos s = - 1 \<or> preDotState s = 0
            \<or> (preDotState s = 1 \<and> startDot s = endPos s - 1
                \<and> startDot s = startPart s + 1)
         then ''''
         else take (nat (endPos s - startDot s)) (drop (nat (startDot s)) p))"

subsection \<open>Validation\<close>

text \<open>
  \<^verbatim>\<open>validate(schema, documents, config, outputFile)\<close>: two log calls, then the two checks
  in the source's order, each throwing an \<^verbatim>\<open>Error\<close> whose message starts with
  \<^verbatim>\<open>Plugin "@linear/sdk-plugin" config requires\<close>. The result is the log and either the
  thrown error or the normal return.
\<close>

definition validate ::
  "(string \<Rightarrow> string) \<Rightarrow> 'schema \<Rightarrow> 'doc list \<Rightarrow> RawSdkPluginConfig \<Rightarrow> string
   \<Rightarrow> log_entry list \<times> (js_error + unit)" where
  "validate extname schema documents config outputFile =
     (let packageName = ''@linear/sdk-plugin'';
          lg = [LogInfo (''Validating '' @ packageName), LogDebugConfig config];
          prefix = ''Plugin \"'' @ packageName @ ''\" config requires''
      in if extname outputFile \<noteq> ''.ts'' then
           (lg, Inl (Error (prefix @ '' output file extension to be \".ts\" but is \"''
                            @ outputFile @ ''\"'')))
         else if \<not> truthy (documentFile config) \<or> typeof (documentFile config) \<noteq> ''string''
         then
           (lg, Inl (Error (prefix @ '' documentFile to be a string path to a document file generated by \"typed-document-node\"'')))
         else (lg, Inr ()))"

text \<open>
  The specification's two conditions on the inputs of validation, in its words: the
  output file path ends in the \<^verbatim>\<open>.ts\<close> extension, and the document-source-file path is
  a non-empty string.
\<close>

definition spec_ends_in_ts :: "string \<Rightarrow> bool" where
  "spec_ends_in_ts outputFile = suffix ''.ts'' outputFile"

fun spec_nonempty_string :: "js_value \<Rightarrow> bool" where
  "spec_nonempty_string (JString s) = (s \<noteq> [])"
| "spec_nonempty_string v = False"

subsection \<open>The plugin function\<close>

text \<open>
  The functions \<^verbatim>\<open>plugin\<close> calls live in other modules (\<^verbatim>\<open>./documents\<close>,
  \<^verbatim>\<open>./fragments\<close>, \<^verbatim>\<open>./requester\<close>, \<^verbatim>\<open>./sdk-visitor\<close>, \<^verbatim>\<open>@linear/common\<close>,
  \<^verbatim>\<open>graphql\<close>). They are parameters of the model, each either raising an exception or
  returning a value of a type left open. \<open>createVisitor\<close> takes the optional chain key
  last; \<open>sdkContent\<close> reads \<^verbatim>\<open>.visitor.sdkContent\<close> of what it returns;
  \<open>NAMESPACE_DOCUMENT\<close> is the constant \<^verbatim>\<open>c.NAMESPACE_DOCUMENT\<close>. \<open>valueToString\<close> is
  the runtime's conversion of a value that is not a string to text, which a template
  literal applies and which may raise.
\<close>

record ('schema, 'doc, 'sdkdoc, 'ast, 'frag, 'vis) collaborators =
  processSdkDocuments :: "'doc list \<Rightarrow> js_error + 'sdkdoc list"
  getRootDocuments :: "'sdkdoc list \<Rightarrow> js_error + 'sdkdoc list"
  concatAST :: "'sdkdoc list \<Rightarrow> js_error + 'ast"
  getFragmentsFromAst :: "'ast \<Rightarrow> RawSdkPluginConfig \<Rightarrow> js_error + 'frag list"
  createVisitor ::
    "'schema \<Rightarrow> 'doc list \<Rightarrow> 'sdkdoc list \<Rightarrow> 'frag list \<Rightarrow> RawSdkPluginConfig
     \<Rightarrow> string option \<Rightarrow> js_error + 'vis"
  getChainKeys :: "'sdkdoc list \<Rightarrow> js_error + string list"
  getChildDocuments :: "'sdkdoc list \<Rightarrow> string \<Rightarrow> js_error + 'sdkdoc list"
  printRequesterType :: "RawSdkPluginConfig \<Rightarrow> js_error + string list"
  filterJoin :: "string list \<Rightarrow> string \<Rightarrow> js_error + string"
  sdkContent :: "'vis \<Rightarrow> string"
  NAMESPACE_DOCUMENT :: string
  valueToString :: "js_value \<Rightarrow> js_error + string"

text \<open>The structure \<^verbatim>\<open>plugin\<close> returns.\<close>

record plugin_output =
  prepend :: "string list"
  content :: string

text \<open>
  A computation inside \<^verbatim>\<open>plugin\<close> takes the log written so far and gives the log it
  leaves and either the exception it raised or its value. \<open>and_then\<close> is sequencing of
  statements: an exception ends the sequence.
\<close>

type_synonym 'a action = "log_entry list \<Rightarrow> log_entry list \<times> (js_error + 'a)"

definition call :: "js_error + 'a \<Rightarrow> 'a action" where
  "call r lg = (lg, r)"

definition logger :: "log_entry \<Rightarrow> unit action" where
  "logger entry lg = (lg @ [entry], Inr ())"

definition returns :: "'a \<Rightarrow> 'a action" where
  "returns x lg = (lg, Inr x)"

definition and_then :: "'a action \<Rightarrow> ('a \<Rightarrow> 'b action) \<Rightarrow> 'b action" where
  "and_then m f lg =
     (case m lg of
        (lg', Inl e) \<Rightarrow> (lg', Inl e)
      | (lg', Inr x) \<Rightarrow> f x lg')"

text \<open>\<^verbatim>\<open>xs.map(f)\<close> for a callback that may raise: elements in order, up to the first
  exception.\<close>

fun map_action :: "('a \<Rightarrow> 'b action) \<Rightarrow> 'a list \<Rightarrow> 'b list action" where
  "map_action f [] = returns []"
| "map_action f (x # xs) =
     and_then (f x) (\<lambda>y. and_then (map_action f xs) (\<lambda>ys. returns (y # ys)))"

text \<open>
  The text a template literal inserts for a value: a string as it is, any other value
  through the runtime's conversion.
\<close>

definition template_text ::
  "(js_value \<Rightarrow> js_error + string) \<Rightarrow> js_value \<Rightarrow> js_error + string" where
  "template_text toText v = (case v of JString s \<Rightarrow> Inr s | _ \<Rightarrow> toText v)"

text \<open>
  Modelled from the spec: \<^verbatim>\<open>nonNullable\<close> of \<^verbatim>\<open>@linear/common\<close>, the filter that keeps
  the prelude lines that are present.
\<close>

definition nonNullable :: "'a option \<Rightarrow> bool" where
  "nonNullable x = (x \<noteq> None)"

text \<open>The array literal of \<^verbatim>\<open>prepend\<close>, filtered.\<close>

definition prepend_lines :: "RawSdkPluginConfig \<Rightarrow> string list" where
  "prepend_lines config =
     map the (filter nonNullable
       [Some ''/* eslint-disable @typescript-eslint/no-unused-vars */'',
        (if documentMode config \<noteq> Some DocumentMode_string
         then Some (''import { DocumentNode } from '' @ [CHR 0x27] @ ''graphql'' @ [CHR 0x27])
         else None),
        Some (''import { ResultOf } from '' @ [CHR 0x27]
              @ ''@graphql-typed-document-node/core'' @ [CHR 0x27])])"

text \<open>The callback of \<^verbatim>\<open>chainKeys.map\<close>.\<close>

definition chain_visitor ::
  "('schema, 'doc, 'sdkdoc, 'ast, 'frag, 'vis) collaborators \<Rightarrow> 'schema \<Rightarrow> 'doc list
   \<Rightarrow> RawSdkPluginConfig \<Rightarrow> 'sdkdoc list \<Rightarrow> 'frag list \<Rightarrow> string \<Rightarrow> 'vis action" where
  "chain_visitor env schema documents config sdkDocuments rootFragments chainKey =
     and_then (logger (LogInfo (''Generating '' @ chainKey @ '' sdk''))) (\<lambda>_.
     and_then (call (getChildDocuments env sdkDocuments chainKey)) (\<lambda>chainDocuments.
     and_then (logger (LogDebugCounts [(chainKey @ ''Documents'', length chainDocuments)])) (\<lambda>_.
     call (createVisitor env schema documents chainDocuments rootFragments config
             (Some chainKey)))))"

text \<open>
  The statements from \<^verbatim>\<open>logger.info("Printing sdk")\<close> to the \<^verbatim>\<open>return\<close>. The elements of
  the array passed to \<^verbatim>\<open>filterJoin\<close> are evaluated in order: the two template literals,
  each inserting \<^verbatim>\<open>config.documentFile\<close>, then \<^verbatim>\<open>printRequesterType(config)\<close>, then the
  visitors' contents.
\<close>

definition print_sdk ::
  "('schema, 'doc, 'sdkdoc, 'ast, 'frag, 'vis) collaborators \<Rightarrow> RawSdkPluginConfig
   \<Rightarrow> 'vis list \<Rightarrow> 'vis \<Rightarrow> plugin_output action" where
  "print_sdk env config chainVisitors rootVisitor =
     and_then (logger (LogInfo ''Printing sdk'')) (\<lambda>_.
     and_then (call (template_text (valueToString env) (documentFile config))) (\<lambda>file1.
     and_then (call (template_text (valueToString env) (documentFile config))) (\<lambda>file2.
     and_then (call (printRequesterType env config)) (\<lambda>requester.
     and_then (call (filterJoin env
        ([''import * as '' @ NAMESPACE_DOCUMENT env @ '' from '' @ [CHR 0x27]
            @ file1 @ [CHR 0x27],
          ''export * from '' @ [CHR 0x27] @ file2 @ [CHR 0x27, CHR 0x0A]]
         @ requester
         @ map (sdkContent env) chainVisitors
         @ [sdkContent env rootVisitor])
        [CHR 0x0A])) (\<lambda>text.
     returns \<lparr>prepend = prepend_lines config, content = text\<rparr>)))))"

text \<open>The body of the \<^verbatim>\<open>try\<close> block.\<close>

definition try_block ::
  "('schema, 'doc, 'sdkdoc, 'ast, 'frag, 'vis) collaborators \<Rightarrow> 'schema \<Rightarrow> 'doc list
   \<Rightarrow> RawSdkPluginConfig \<Rightarrow> plugin_output action" where
  "try_block env schema documents config =
     and_then (logger (LogInfo ''Processing documents'')) (\<lambda>_.
     and_then (call (processSdkDocuments env documents)) (\<lambda>sdkDocuments.
     and_then (call (getRootDocuments env sdkDocuments)) (\<lambda>rootDocuments.
     and_then (call (concatAST env rootDocuments)) (\<lambda>rootAst.
     and_then (call (getFragmentsFromAst env rootAst config)) (\<lambda>rootFragments.
     and_then (logger (LogInfo ''Generating root sdk'')) (\<lambda>_.
     and_then (logger (LogDebugCounts
        [(''sdkDocuments'', length sdkDocuments),
         (''rootDocuments'', length rootDocuments),
         (''rootFragments'', length rootFragments)])) (\<lambda>_.
     and_then (call (createVisitor env schema documents rootDocuments rootFragments config
                       None)) (\<lambda>rootVisitor.
     and_then (call (getChainKeys env sdkDocuments)) (\<lambda>chainKeys.
     and_then (map_action
                 (chain_visitor env schema documents config sdkDocuments rootFragments)
                 chainKeys) (\<lambda>chainVisitors.
     print_sdk env config chainVisitors rootVisitor))))))))))"

text \<open>
  \<^verbatim>\<open>try { ... } catch (e) { logger.fatal(e); throw e; }\<close>, on the empty log of one
  invocation. The promise the asynchronous function returns is rejected with what it
  throws and fulfilled with what it returns.
\<close>

definition plugin ::
  "('schema, 'doc, 'sdkdoc, 'ast, 'frag, 'vis) collaborators \<Rightarrow> 'schema \<Rightarrow> 'doc list
   \<Rightarrow> RawSdkPluginConfig \<Rightarrow> log_entry list \<times> (js_error + plugin_output)" where
  "plugin env schema documents config =
     (case try_block env schema documents config [] of
        (lg, Inl e) \<Rightarrow> (lg @ [LogFatal e], Inl e)
      | (lg, Inr out) \<Rightarrow> (lg, Inr out))"

text \<open>
  The specification's reading of the chained visitors, to compare \<^verbatim>\<open>chainKeys.map\<close> with:
  the chain keys are taken in order; the first exception that fetching a key's documents
  or building its visitor raises is the result, unchanged; when none raises, the result
  is the visitors of all keys.
\<close>

fun spec_chain_visitors ::
  "('schema, 'doc, 'sdkdoc, 'ast, 'frag, 'vis) collaborators \<Rightarrow> 'schema \<Rightarrow> 'doc list
   \<Rightarrow> RawSdkPluginConfig \<Rightarrow> 'sdkdoc list \<Rightarrow> 'frag list \<Rightarrow> string list
   \<Rightarrow> js_error + 'vis list" where
  "spec_chain_visitors env schema documents config sdkDocuments rootFragments [] = Inr []"
| "spec_chain_visitors env schema documents config sdkDocuments rootFragments
     (chainKey # chainKeys) =
     (case getChildDocuments env sdkDocuments chainKey of
        Inl e \<Rightarrow> Inl e
      | Inr chainDocuments \<Rightarrow>
          (case createVisitor env schema documents chainDocuments rootFragments config
                  (Some chainKey) of
             Inl e \<Rightarrow> Inl e
           | Inr v \<Rightarrow>
               (case spec_chain_visitors env schema documents config sdkDocuments
                       rootFragments chainKeys of
                  Inl e \<Rightarrow> Inl e
                | Inr vs \<Rightarrow> Inr (v # vs))))"

text \<open>Building blocks for concrete operations.\<close>

definition named :: "string \<Rightarrow> type_node" where
  "named s = NamedTypeNode (NameNode s)"

definition var_def :: "string \<Rightarrow> type_node \<Rightarrow> value_node option \<Rightarrow> variable_definition_node" where
  "var_def n t dv = \<lparr>variable = VariableNode (NameNode n), vtype = t, defaultValue = dv\<rparr>"

definition operation :: "variable_definition_node list option \<Rightarrow> string list \<Rightarrow> api_definition" where
  "operation vs p = \<lparr>node = \<lparr>variableDefinitions = vs\<rparr>, path = p\<rparr>"

text \<open>
  Example collaborators for concrete runs of \<open>plugin\<close>: the chain keys given, a
  requester of one line, a join that drops empty strings, and results of
  \<open>concatAST\<close>, of \<open>getChildDocuments\<close> and of the root visitor's construction as the
  arguments say.
\<close>

definition example_collaborators ::
  "js_error + unit \<Rightarrow> string list \<Rightarrow> (string \<Rightarrow> js_error + unit list) \<Rightarrow> js_error + string
   \<Rightarrow> (unit, unit, unit, unit, unit, string) collaborators" where
  "example_collaborators ast keys child built =
     \<lparr>processSdkDocuments = (\<lambda>ds. Inr ds),
      getRootDocuments = (\<lambda>sds. Inr sds),
      concatAST = (\<lambda>sds. ast),
      getFragmentsFromAst = (\<lambda>a config. Inr []),
      createVisitor = (\<lambda>schema ds sds frags config key.
         case key of None \<Rightarrow> built | Some k \<Rightarrow> Inr (''chain '' @ k)),
      getChainKeys = (\<lambda>sds. Inr keys),
      getChildDocuments = (\<lambda>sds key. child key),
      printRequesterType = (\<lambda>config. Inr [''requester'']),
      filterJoin = (\<lambda>xs sep.
         Inr (foldr (\<lambda>x acc. if acc = [] then x else x @ sep @ acc)
                (filter (\<lambda>x. x \<noteq> []) xs) [])),
      sdkContent = (\<lambda>v. v),
      NAMESPACE_DOCUMENT = ''D'',
      valueToString = (\<lambda>v. Inr ''[object Object]'')\<rparr>"

definition example_config :: RawSdkPluginConfig where
  "example_config =
     \<lparr>documentFile = JString ''./documents.ts'', documentMode = Some DocumentMode_string\<rparr>"

section \<open>Properties of the node inspectors\<close>

text \<open>
  C7: for every operation whose variable-definition list is empty or absent, the
  optional-variable check returns true.
\<close>

theorem hasOptionalVariable_no_variables:
  "variableDefinitions (node d) = None \<or> variableDefinitions (node d) = Some []
   \<Longrightarrow> hasOptionalVariable d"
  by (auto simp: hasOptionalVariable_def)

theorem hasOptionalVariable_no_variables_witness:
  "hasOptionalVariable (operation None [''team'']) \<and> hasOptionalVariable (operation (Some []) [])"
  using hasOptionalVariable_no_variables [of "operation None [''team'']"]
    hasOptionalVariable_no_variables [of "operation (Some []) []"]
  by (simp add: operation_def)

text \<open>
  C10: for every operation whose variable-definition list is empty or absent, and for
  every variable name, the variable-presence check and the other-variable check both
  return false: a variable-free operation has no "extra" parameter.
\<close>

theorem no_variables_hasVariable_hasOtherVariable:
  "variableDefinitions (node d) = None \<or> variableDefinitions (node d) = Some []
   \<Longrightarrow> hasVariable d variableName = False \<and> hasOtherVariable d variableName = False"
  by (auto simp: hasVariable_def hasOtherVariable_def)

theorem no_variables_hasVariable_hasOtherVariable_witness:
  "hasVariable (operation None []) ''id'' = False
   \<and> hasOtherVariable (operation None []) ''id'' = False
   \<and> hasVariable (operation (Some []) [''team'']) ''id'' = False
   \<and> hasOtherVariable (operation (Some []) [''team'']) ''id'' = False"
  using no_variables_hasVariable_hasOtherVariable [of "operation None []" "''id''"]
    no_variables_hasVariable_hasOtherVariable [of "operation (Some []) [''team'']" "''id''"]
  by (simp add: operation_def)

text \<open>
  C4: a variable is required if and only if the outermost wrapper of its type is the
  non-null wrapper. The check does not recurse: a list of non-null elements is not
  required.
\<close>

theorem isRequiredVariable_outermost:
  "(isRequiredVariable v \<longleftrightarrow> (\<exists>t. vtype v = NonNullTypeNode t))
   \<and> isRequiredVariable (v\<lparr>vtype := ListTypeNode (NonNullTypeNode t')\<rparr>) = False"
  by (cases "vtype v") (simp_all add: isRequiredVariable_def)

theorem isRequiredVariable_outermost_witness:
  "isRequiredVariable (var_def ''ids'' (NonNullTypeNode (ListTypeNode (named ''String''))) None)
   \<and> isRequiredVariable (var_def ''ids'' (ListTypeNode (NonNullTypeNode (named ''String''))) None)
       = False"
  using isRequiredVariable_outermost
    [of "var_def ''ids'' (NonNullTypeNode (ListTypeNode (named ''String''))) None"
        "named ''String''"]
  by (simp add: var_def_def)

text \<open>
  C3: for the operation with the variable definitions
  \<^verbatim>\<open>[{name: "id", type: NonNull}, {name: "input", type: NonNull}]\<close> and no default
  values, the optional-variable check returns false on the empty path and on every
  non-empty path, whatever the two non-null wrappers wrap.
\<close>

theorem hasOptionalVariable_id_input:
  "hasOptionalVariable
     (operation (Some [var_def ''id'' (NonNullTypeNode t1) None,
                       var_def ''input'' (NonNullTypeNode t2) None]) []) = False
   \<and> (p \<noteq> [] \<longrightarrow>
      hasOptionalVariable
        (operation (Some [var_def ''id'' (NonNullTypeNode t1) None,
                          var_def ''input'' (NonNullTypeNode t2) None]) p) = False)"
  by (simp add: hasOptionalVariable_def operation_def var_def_def optional_at_def
      isIdVariable_def isRequiredVariable_def ID_NAME_def)

theorem hasOptionalVariable_id_input_witness:
  "hasOptionalVariable
     (operation (Some [var_def ''id'' (NonNullTypeNode (named ''String'')) None,
                       var_def ''input'' (NonNullTypeNode (named ''IssueInput'')) None]) [])
     = False
   \<and> hasOptionalVariable
     (operation (Some [var_def ''id'' (NonNullTypeNode (named ''String'')) None,
                       var_def ''input'' (NonNullTypeNode (named ''IssueInput'')) None])
        [''issue'']) = False"
  using hasOptionalVariable_id_input
    [of "named ''String''" "named ''IssueInput''" "[''issue'']"]
  by simp

text \<open>
  C2: an operation whose variable list holds a variable with a non-null outermost
  wrapper, a name other than the identifier convention and no default value (in
  particular when it is the only variable) fails the optional-variable check on the
  empty path; an operation whose single variable is the identifier-convention-named
  required variable passes it on a non-empty path.
\<close>

theorem hasOptionalVariable_required_and_id:
  "(variableDefinitions (node d) = Some vs \<and> path d = [] \<and> v \<in> set vs
      \<and> vtype v = NonNullTypeNode t
      \<and> name_value (variable_name (variable v)) \<noteq> ID_NAME
      \<and> defaultValue v = None
    \<longrightarrow> hasOptionalVariable d = False)
   \<and> (variableDefinitions (node d') = Some [v'] \<and> path d' \<noteq> []
      \<and> name_value (variable_name (variable v')) = ID_NAME
      \<and> vtype v' = NonNullTypeNode t'
    \<longrightarrow> hasOptionalVariable d' = True)"
proof (intro conjI impI)
  assume h: "variableDefinitions (node d) = Some vs \<and> path d = [] \<and> v \<in> set vs
      \<and> vtype v = NonNullTypeNode t
      \<and> name_value (variable_name (variable v)) \<noteq> ID_NAME
      \<and> defaultValue v = None"
  then have "\<not> optional_at (path d) v"
    by (simp add: optional_at_def isRequiredVariable_def)
  with h have "\<not> list_all (optional_at (path d)) vs"
    by (auto simp: list_all_iff)
  moreover from h have "vs \<noteq> []"
    by auto
  ultimately show "hasOptionalVariable d = False"
    using h by (simp add: hasOptionalVariable_def)
next
  assume "variableDefinitions (node d') = Some [v'] \<and> path d' \<noteq> []
      \<and> name_value (variable_name (variable v')) = ID_NAME
      \<and> vtype v' = NonNullTypeNode t'"
  then show "hasOptionalVariable d' = True"
    by (simp add: hasOptionalVariable_def optional_at_def isIdVariable_def
        isRequiredVariable_def)
qed

theorem hasOptionalVariable_required_and_id_witness:
  "hasOptionalVariable
     (operation (Some [var_def ''input'' (NonNullTypeNode (named ''IssueInput'')) None]) [])
     = False
   \<and> hasOptionalVariable
     (operation (Some [var_def ''id'' (NonNullTypeNode (named ''String'')) None]) [''issue''])
     = True"
  using hasOptionalVariable_required_and_id
    [of "operation (Some [var_def ''input'' (NonNullTypeNode (named ''IssueInput'')) None]) []"
        "[var_def ''input'' (NonNullTypeNode (named ''IssueInput'')) None]"
        "var_def ''input'' (NonNullTypeNode (named ''IssueInput'')) None"
        "named ''IssueInput''"
        "operation (Some [var_def ''id'' (NonNullTypeNode (named ''String'')) None]) [''issue'']"
        "var_def ''id'' (NonNullTypeNode (named ''String'')) None"
        "named ''String''"]
  by (simp add: operation_def var_def_def ID_NAME_def)

text \<open>
  C1, as the code has it: the optional-variable check returns true exactly when the
  variable-definition list is absent or empty, or every variable in it (i) is named with
  the identifier convention and required while the operation's path is non-empty, or
  (ii) is not required, or (iii) has a default value. On the empty path the
  identifier-convention variable is not exempt.
\<close>

theorem hasOptionalVariable_iff:
  "hasOptionalVariable d \<longleftrightarrow>
     (case variableDefinitions (node d) of
        None \<Rightarrow> True
      | Some vs \<Rightarrow>
          vs = [] \<or>
          (\<forall>v \<in> set vs.
             (path d \<noteq> [] \<and> isIdVariable v)
             \<or> \<not> isRequiredVariable v
             \<or> defaultValue v \<noteq> None))"
  by (auto simp: hasOptionalVariable_def optional_at_def list_all_iff split: option.splits)

theorem hasOptionalVariable_iff_witness:
  "hasOptionalVariable
     (operation (Some [var_def ''id'' (NonNullTypeNode (named ''String'')) None,
                       var_def ''first'' (named ''Int'') None,
                       var_def ''input'' (NonNullTypeNode (named ''IssueInput''))
                         (Some NullValue)]) [''issue''])"
  using hasOptionalVariable_iff
    [of "operation (Some [var_def ''id'' (NonNullTypeNode (named ''String'')) None,
                       var_def ''first'' (named ''Int'') None,
                       var_def ''input'' (NonNullTypeNode (named ''IssueInput''))
                         (Some NullValue)]) [''issue'']"]
  by (simp add: operation_def var_def_def isIdVariable_def isRequiredVariable_def
      ID_NAME_def named_def)

text \<open>
  The statement of C1 with exemption (i) granted on every path fails on the root
  operation whose only variable is the required identifier-convention variable: the
  variable satisfies (i), and the check returns false.
\<close>

theorem hasOptionalVariable_id_on_empty_path_counterexample:
  "\<not> (hasOptionalVariable
        (operation (Some [var_def ''id'' (NonNullTypeNode (named ''String'')) None]) [])
      \<longleftrightarrow>
        ([var_def ''id'' (NonNullTypeNode (named ''String'')) None] = [] \<or>
         (\<forall>v \<in> set [var_def ''id'' (NonNullTypeNode (named ''String'')) None].
            isIdVariable v \<or> \<not> isRequiredVariable v \<or> defaultValue v \<noteq> None)))"
  by (simp add: hasOptionalVariable_def operation_def var_def_def optional_at_def
      isIdVariable_def isRequiredVariable_def ID_NAME_def)

section \<open>Properties of type-name resolution\<close>

lemma getTypeName_js_of_name: "getTypeName (js_of_name n) = Inr (name_value n)"
  by (cases n) simp

lemma getTypeName_js_of_type: "getTypeName (js_of_type t) = Inr (spec_innermost_name t)"
  by (induction t) (simp_all add: getTypeName_js_of_name)

text \<open>
  C5: type-name resolution never throws on an input of its signature. On a plain string
  it returns the string, on a name node its value, and on a type node built from
  non-null wrappers, list wrappers and named types the innermost named type's name; on
  an object of any other kind, a boolean or a number it returns the sentinel
  \<^verbatim>\<open>"UNKNOWN_OPERATION_TYPE"\<close>.
\<close>

theorem getTypeName_total_on_type_nodes:
  "getTypeName (JString s) = Inr s
   \<and> getTypeName (js_of_name n) = Inr (name_value n)
   \<and> getTypeName (js_of_type t) = Inr (spec_innermost_name t)
   \<and> getTypeName (JNode (OTHER_KIND k) ty nm vl) = Inr ''UNKNOWN_OPERATION_TYPE''
   \<and> getTypeName (JBoolean b) = Inr ''UNKNOWN_OPERATION_TYPE''
   \<and> getTypeName (JNumber i) = Inr ''UNKNOWN_OPERATION_TYPE''"
  by (simp add: getTypeName_js_of_name getTypeName_js_of_type)

theorem getTypeName_total_on_type_nodes_witness:
  "getTypeName (js_of_type (NonNullTypeNode (ListTypeNode (NonNullTypeNode (named ''Issue'')))))
     = Inr ''Issue''
   \<and> getTypeName (JNode (OTHER_KIND ''Variable'') JUndefined
        (js_of_name (NameNode ''id'')) JUndefined) = Inr ''UNKNOWN_OPERATION_TYPE''"
  using getTypeName_total_on_type_nodes
    [of "''Issue''" "NameNode ''Issue''"
        "NonNullTypeNode (ListTypeNode (NonNullTypeNode (named ''Issue'')))"
        "''Variable''" JUndefined "js_of_name (NameNode ''id'')" JUndefined True "Finite 0"]
  by (simp add: named_def)

text \<open>
  C6: resolving a type wrapped in non-null, then list, then non-null gives the same
  result as resolving the base type directly, for every typed base node and for every
  run-time value in its place.
\<close>

theorem getTypeName_rewrap:
  "getTypeName (js_of_type (NonNullTypeNode (ListTypeNode (NonNullTypeNode t))))
     = getTypeName (js_of_type t)
   \<and> getTypeName (non_null_of (list_of_type (non_null_of x))) = getTypeName x"
  by (simp add: non_null_of_def list_of_type_def)

theorem getTypeName_rewrap_witness:
  "getTypeName (js_of_type (NonNullTypeNode (ListTypeNode (NonNullTypeNode (named ''Team'')))))
     = Inr ''Team''
   \<and> getTypeName (non_null_of (list_of_type (non_null_of (JString ''Team'')))) = Inr ''Team''"
  using getTypeName_rewrap [of "named ''Team''" "JString ''Team''"]
  by (simp add: named_def)

section \<open>Properties of validation\<close>

lemma posix_extname_operations_ts: "posix_extname ''operations.ts'' = ''.ts''"
  by code_simp

lemma posix_extname_operations_js: "posix_extname ''operations.js'' = ''.js''"
  by code_simp

lemma posix_extname_dot_ts: "posix_extname ''.ts'' = ''''"
  by code_simp

lemma truthy_string: "(truthy v \<and> typeof v = ''string'') = spec_nonempty_string v"
  by (cases v) simp_all

text \<open>
  C8, as the code has it: validation throws if and only if the extension of the output
  file path, as \<^verbatim>\<open>extname\<close> gives it, is not \<^verbatim>\<open>.ts\<close>, or the document-source-file path
  is not a non-empty string. With the document file \<^verbatim>\<open>./documents.ts\<close>, the output path
  \<^verbatim>\<open>operations.ts\<close> validates, and the output path \<^verbatim>\<open>operations.js\<close> throws the error
  that names the required extension.
\<close>

theorem validate_throws_iff:
  "(isl (snd (validate extname schema documents config outputFile))
      \<longleftrightarrow> extname outputFile \<noteq> ''.ts'' \<or> \<not> spec_nonempty_string (documentFile config))
   \<and> snd (validate posix_extname schema documents
        \<lparr>documentFile = JString ''./documents.ts'', documentMode = Some DocumentMode_string\<rparr>
        ''operations.ts'') = Inr ()
   \<and> snd (validate posix_extname schema documents
        \<lparr>documentFile = JString ''./documents.ts'', documentMode = Some DocumentMode_string\<rparr>
        ''operations.js'')
      = Inl (Error ''Plugin \"@linear/sdk-plugin\" config requires output file extension to be \".ts\" but is \"operations.js\"'')"
proof (intro conjI)
  show "isl (snd (validate extname schema documents config outputFile))
      \<longleftrightarrow> extname outputFile \<noteq> ''.ts'' \<or> \<not> spec_nonempty_string (documentFile config)"
    using truthy_string [of "documentFile config"]
    by (auto simp: validate_def Let_def)
next
  show "snd (validate posix_extname schema documents
        \<lparr>documentFile = JString ''./documents.ts'', documentMode = Some DocumentMode_string\<rparr>
        ''operations.ts'') = Inr ()"
    by (simp add: validate_def posix_extname_operations_ts)
next
  show "snd (validate posix_extname schema documents
        \<lparr>documentFile = JString ''./documents.ts'', documentMode = Some DocumentMode_string\<rparr>
        ''operations.js'')
      = Inl (Error ''Plugin \"@linear/sdk-plugin\" config requires output file extension to be \".ts\" but is \"operations.js\"'')"
    by (simp add: validate_def posix_extname_operations_js)
qed

theorem validate_throws_iff_witness:
  "isl (snd (validate posix_extname () ([] :: unit list)
        \<lparr>documentFile = JString '''', documentMode = None\<rparr> ''operations.ts''))
   \<and> isl (snd (validate posix_extname () ([] :: unit list)
        \<lparr>documentFile = JUndefined, documentMode = None\<rparr> ''operations.ts''))
   \<and> isl (snd (validate posix_extname () ([] :: unit list)
        \<lparr>documentFile = JString ''./documents.ts'', documentMode = None\<rparr> ''.ts''))
   \<and> \<not> isl (snd (validate posix_extname () ([] :: unit list)
        \<lparr>documentFile = JString ''./documents.ts'', documentMode = None\<rparr> ''operations.ts''))"
  using validate_throws_iff [of posix_extname "()" "[] :: unit list"
      "\<lparr>documentFile = JString '''', documentMode = None\<rparr>" "''operations.ts''"]
    validate_throws_iff [of posix_extname "()" "[] :: unit list"
      "\<lparr>documentFile = JUndefined, documentMode = None\<rparr>" "''operations.ts''"]
    validate_throws_iff [of posix_extname "()" "[] :: unit list"
      "\<lparr>documentFile = JString ''./documents.ts'', documentMode = None\<rparr>" "''.ts''"]
    validate_throws_iff [of posix_extname "()" "[] :: unit list"
      "\<lparr>documentFile = JString ''./documents.ts'', documentMode = None\<rparr>" "''operations.ts''"]
  by (simp add: posix_extname_operations_ts posix_extname_dot_ts)

text \<open>
  The statement of C8 with "the path ends in \<^verbatim>\<open>.ts\<close>" read on the text of the path fails
  on the output path \<^verbatim>\<open>.ts\<close>: the path ends in \<^verbatim>\<open>.ts\<close> and the document file is a
  non-empty string, yet the file has no extension and validation throws.
\<close>

theorem validate_dot_ts_counterexample:
  "\<not> (isl (snd (validate posix_extname () ([] :: unit list)
          \<lparr>documentFile = JString ''./documents.ts'', documentMode = Some DocumentMode_string\<rparr>
          ''.ts''))
      \<longleftrightarrow> (\<not> spec_ends_in_ts ''.ts''
           \<or> \<not> spec_nonempty_string (JString ''./documents.ts'')))"
  by (simp add: validate_def posix_extname_dot_ts spec_ends_in_ts_def)

section \<open>Properties of the plugin function\<close>

lemma and_then_call_Inl: "and_then (call (Inl e)) f lg = (lg, Inl e)"
  by (simp add: and_then_def call_def)

lemma and_then_call_Inr: "and_then (call (Inr x)) f lg = f x lg"
  by (simp add: and_then_def call_def)

lemma and_then_logger: "and_then (logger entry) f lg = f () (lg @ [entry])"
  by (simp add: and_then_def logger_def)

text \<open>
  What a sequence raises or returns: the exception of its first part, or what the rest
  gives on the first part's value.
\<close>

lemma snd_and_then:
  "snd (and_then m f lg)
   = (case snd (m lg) of Inl e \<Rightarrow> Inl e | Inr x \<Rightarrow> snd (f x (fst (m lg))))"
  by (cases "m lg") (simp add: and_then_def split: sum.splits)

lemma snd_call: "snd (call r lg) = r"
  by (simp add: call_def)

lemma snd_logger: "snd (logger entry lg) = Inr ()"
  by (simp add: logger_def)

lemma snd_returns: "snd (returns x lg) = Inr x"
  by (simp add: returns_def)

lemma snd_chain_visitor:
  "snd (chain_visitor env schema documents config sdkDocuments rootFragments chainKey lg)
   = (case getChildDocuments env sdkDocuments chainKey of
        Inl e \<Rightarrow> Inl e
      | Inr chainDocuments \<Rightarrow>
          createVisitor env schema documents chainDocuments rootFragments config
            (Some chainKey))"
  by (simp add: chain_visitor_def snd_and_then snd_call snd_logger split: sum.splits)

text \<open>\<^verbatim>\<open>chainKeys.map\<close> raises or returns what the specification's reading says.\<close>

lemma snd_map_action_chain_visitor:
  "snd (map_action (chain_visitor env schema documents config sdkDocuments rootFragments)
          chainKeys lg)
   = spec_chain_visitors env schema documents config sdkDocuments rootFragments chainKeys"
proof (induction chainKeys arbitrary: lg)
  case Nil
  show ?case by (simp add: snd_returns)
next
  case (Cons chainKey chainKeys)
  show ?case
    by (simp add: snd_and_then snd_chain_visitor snd_returns Cons.IH split: sum.splits)
qed

lemma snd_print_sdk:
  "snd (print_sdk env config chainVisitors rootVisitor lg)
   = (case template_text (valueToString env) (documentFile config) of
        Inl e \<Rightarrow> Inl e
      | Inr file \<Rightarrow>
          (case printRequesterType env config of
             Inl e \<Rightarrow> Inl e
           | Inr requester \<Rightarrow>
               (case filterJoin env
                  ([''import * as '' @ NAMESPACE_DOCUMENT env @ '' from '' @ [CHR 0x27]
                      @ file @ [CHR 0x27],
                    ''export * from '' @ [CHR 0x27] @ file @ [CHR 0x27, CHR 0x0A]]
                   @ requester
                   @ map (sdkContent env) chainVisitors
                   @ [sdkContent env rootVisitor])
                  [CHR 0x0A] of
                  Inl e \<Rightarrow> Inl e
                | Inr text \<Rightarrow> Inr \<lparr>prepend = prepend_lines config, content = text\<rparr>)))"
  by (simp add: print_sdk_def snd_and_then snd_call snd_logger snd_returns split: sum.splits)

lemma snd_try_block:
  "snd (try_block env schema documents config lg)
   = (case processSdkDocuments env documents of
        Inl e \<Rightarrow> Inl e
      | Inr sdkDocuments \<Rightarrow>
     (case getRootDocuments env sdkDocuments of
        Inl e \<Rightarrow> Inl e
      | Inr rootDocuments \<Rightarrow>
     (case concatAST env rootDocuments of
        Inl e \<Rightarrow> Inl e
      | Inr rootAst \<Rightarrow>
     (case getFragmentsFromAst env rootAst config of
        Inl e \<Rightarrow> Inl e
      | Inr rootFragments \<Rightarrow>
     (case createVisitor env schema documents rootDocuments rootFragments config None of
        Inl e \<Rightarrow> Inl e
      | Inr rootVisitor \<Rightarrow>
     (case getChainKeys env sdkDocuments of
        Inl e \<Rightarrow> Inl e
      | Inr chainKeys \<Rightarrow>
     (case spec_chain_visitors env schema documents config sdkDocuments rootFragments
             chainKeys of
        Inl e \<Rightarrow> Inl e
      | Inr chainVisitors \<Rightarrow>
          snd (print_sdk env config chainVisitors rootVisitor []))))))))"
  by (simp add: try_block_def snd_and_then snd_call snd_logger snd_map_action_chain_visitor
      snd_print_sdk split: sum.splits)

lemma plugin_result:
  "snd (plugin env schema documents config) = snd (try_block env schema documents config [])"
  by (simp add: plugin_def split: prod.splits sum.splits)

lemma spec_chain_visitors_append:
  "spec_chain_visitors env schema documents config sdkDocuments rootFragments (ks1 @ ks2)
   = (case spec_chain_visitors env schema documents config sdkDocuments rootFragments ks1 of
        Inl e \<Rightarrow> Inl e
      | Inr vs1 \<Rightarrow>
          (case spec_chain_visitors env schema documents config sdkDocuments rootFragments
                  ks2 of
             Inl e \<Rightarrow> Inl e
           | Inr vs2 \<Rightarrow> Inr (vs1 @ vs2)))"
  by (induction ks1) (simp_all split: sum.splits)

text \<open>
  C9: what \<open>plugin\<close> throws or returns is decided by the calls of the \<^verbatim>\<open>try\<close> block in
  their order. The first exception that document processing, classification
  (\<open>getRootDocuments\<close>, \<open>concatAST\<close>, \<open>getFragmentsFromAst\<close>, \<open>getChainKeys\<close>,
  \<open>getChildDocuments\<close>), visitor construction (\<open>createVisitor\<close>, for the root and for
  each chain key) or output assembly (the template literals, \<open>printRequesterType\<close>,
  \<open>filterJoin\<close>) raises is the value \<open>plugin\<close> throws, unchanged, and no output
  structure is returned; when none raises, \<open>plugin\<close> returns the output structure. The
  catch block adds one fatal log entry and rethrows. An exception of the chain callback
  at any chain key, after the keys before it succeeded, is rethrown as it is.
\<close>

theorem plugin_rethrows_unchanged:
  "snd (plugin env schema documents config)
     = (case processSdkDocuments env documents of
          Inl e \<Rightarrow> Inl e
        | Inr sdkDocuments \<Rightarrow>
       (case getRootDocuments env sdkDocuments of
          Inl e \<Rightarrow> Inl e
        | Inr rootDocuments \<Rightarrow>
       (case concatAST env rootDocuments of
          Inl e \<Rightarrow> Inl e
        | Inr rootAst \<Rightarrow>
       (case getFragmentsFromAst env rootAst config of
          Inl e \<Rightarrow> Inl e
        | Inr rootFragments \<Rightarrow>
       (case createVisitor env schema documents rootDocuments rootFragments config None of
          Inl e \<Rightarrow> Inl e
        | Inr rootVisitor \<Rightarrow>
       (case getChainKeys env sdkDocuments of
          Inl e \<Rightarrow> Inl e
        | Inr chainKeys \<Rightarrow>
       (case spec_chain_visitors env schema documents config sdkDocuments rootFragments
               chainKeys of
          Inl e \<Rightarrow> Inl e
        | Inr chainVisitors \<Rightarrow>
       (case template_text (valueToString env) (documentFile config) of
          Inl e \<Rightarrow> Inl e
        | Inr file \<Rightarrow>
       (case printRequesterType env config of
          Inl e \<Rightarrow> Inl e
        | Inr requester \<Rightarrow>
       (case filterJoin env
               ([''import * as '' @ NAMESPACE_DOCUMENT env @ '' from '' @ [CHR 0x27]
                   @ file @ [CHR 0x27],
                 ''export * from '' @ [CHR 0x27] @ file @ [CHR 0x27, CHR 0x0A]]
                @ requester
                @ map (sdkContent env) chainVisitors
                @ [sdkContent env rootVisitor])
               [CHR 0x0A] of
          Inl e \<Rightarrow> Inl e
        | Inr text \<Rightarrow> Inr \<lparr>prepend = prepend_lines config, content = text\<rparr>))))))))))
   \<and> (snd (try_block env schema documents config []) = Inl e
      \<longrightarrow> plugin env schema documents config
          = (fst (try_block env schema documents config []) @ [LogFatal e], Inl e))
   \<and> (snd (try_block env schema documents config []) = Inr out
      \<longrightarrow> plugin env schema documents config
          = (fst (try_block env schema documents config []), Inr out))
   \<and> (processSdkDocuments env documents = Inr sdkDocuments
      \<and> getRootDocuments env sdkDocuments = Inr rootDocuments
      \<and> concatAST env rootDocuments = Inr rootAst
      \<and> getFragmentsFromAst env rootAst config = Inr rootFragments
      \<and> createVisitor env schema documents rootDocuments rootFragments config None
          = Inr rootVisitor
      \<and> getChainKeys env sdkDocuments = Inr (keysBefore @ chainKey # keysAfter)
      \<and> spec_chain_visitors env schema documents config sdkDocuments rootFragments keysBefore
          = Inr visitorsBefore
      \<and> getChildDocuments env sdkDocuments chainKey = Inl e
      \<longrightarrow> snd (plugin env schema documents config) = Inl e)
   \<and> (processSdkDocuments env documents = Inr sdkDocuments
      \<and> getRootDocuments env sdkDocuments = Inr rootDocuments
      \<and> concatAST env rootDocuments = Inr rootAst
      \<and> getFragmentsFromAst env rootAst config = Inr rootFragments
      \<and> createVisitor env schema documents rootDocuments rootFragments config None
          = Inr rootVisitor
      \<and> getChainKeys env sdkDocuments = Inr (keysBefore @ chainKey # keysAfter)
      \<and> spec_chain_visitors env schema documents config sdkDocuments rootFragments keysBefore
          = Inr visitorsBefore
      \<and> getChildDocuments env sdkDocuments chainKey = Inr chainDocuments
      \<and> createVisitor env schema documents chainDocuments rootFragments config
            (Some chainKey) = Inl e
      \<longrightarrow> snd (plugin env schema documents config) = Inl e)"
proof (intro conjI impI)
  show "snd (plugin env schema documents config)
     = (case processSdkDocuments env documents of
          Inl e \<Rightarrow> Inl e
        | Inr sdkDocuments \<Rightarrow>
       (case getRootDocuments env sdkDocuments of
          Inl e \<Rightarrow> Inl e
        | Inr rootDocuments \<Rightarrow>
       (case concatAST env rootDocuments of
          Inl e \<Rightarrow> Inl e
        | Inr rootAst \<Rightarrow>
       (case getFragmentsFromAst env rootAst config of
          Inl e \<Rightarrow> Inl e
        | Inr rootFragments \<Rightarrow>
       (case createVisitor env schema documents rootDocuments rootFragments config None of
          Inl e \<Rightarrow> Inl e
        | Inr rootVisitor \<Rightarrow>
       (case getChainKeys env sdkDocuments of
          Inl e \<Rightarrow> Inl e
        | Inr chainKeys \<Rightarrow>
       (case spec_chain_visitors env schema documents config sdkDocuments rootFragments
               chainKeys of
          Inl e \<Rightarrow> Inl e
        | Inr chainVisitors \<Rightarrow>
       (case template_text (valueToString env) (documentFile config) of
          Inl e \<Rightarrow> Inl e
        | Inr file \<Rightarrow>
       (case printRequesterType env config of
          Inl e \<Rightarrow> Inl e
        | Inr requester \<Rightarrow>
       (case filterJoin env
               ([''import * as '' @ NAMESPACE_DOCUMENT env @ '' from '' @ [CHR 0x27]
                   @ file @ [CHR 0x27],
                 ''export * from '' @ [CHR 0x27] @ file @ [CHR 0x27, CHR 0x0A]]
                @ requester
                @ map (sdkContent env) chainVisitors
                @ [sdkContent env rootVisitor])
               [CHR 0x0A] of
          Inl e \<Rightarrow> Inl e
        | Inr text \<Rightarrow> Inr \<lparr>prepend = prepend_lines config, content = text\<rparr>))))))))))"
    by (simp add: plugin_result snd_try_block snd_print_sdk split: sum.splits)
next
  assume "snd (try_block env schema documents config []) = Inl e"
  then show "plugin env schema documents config
      = (fst (try_block env schema documents config []) @ [LogFatal e], Inl e)"
    by (cases "try_block env schema documents config []") (simp add: plugin_def)
next
  assume "snd (try_block env schema documents config []) = Inr out"
  then show "plugin env schema documents config
      = (fst (try_block env schema documents config []), Inr out)"
    by (cases "try_block env schema documents config []") (simp add: plugin_def)
next
  assume "processSdkDocuments env documents = Inr sdkDocuments
      \<and> getRootDocuments env sdkDocuments = Inr rootDocuments
      \<and> concatAST env rootDocuments = Inr rootAst
      \<and> getFragmentsFromAst env rootAst config = Inr rootFragments
      \<and> createVisitor env schema documents rootDocuments rootFragments config None
          = Inr rootVisitor
      \<and> getChainKeys env sdkDocuments = Inr (keysBefore @ chainKey # keysAfter)
      \<and> spec_chain_visitors env schema documents config sdkDocuments rootFragments keysBefore
          = Inr visitorsBefore
      \<and> getChildDocuments env sdkDocuments chainKey = Inl e"
  then show "snd (plugin env schema documents config) = Inl e"
    by (simp add: plugin_result snd_try_block spec_chain_visitors_append)
next
  assume "processSdkDocuments env documents = Inr sdkDocuments
      \<and> getRootDocuments env sdkDocuments = Inr rootDocuments
      \<and> concatAST env rootDocuments = Inr rootAst
      \<and> getFragmentsFromAst env rootAst config = Inr rootFragments
      \<and> createVisitor env schema documents rootDocuments rootFragments config None
          = Inr rootVisitor
      \<and> getChainKeys env sdkDocuments = Inr (keysBefore @ chainKey # keysAfter)
      \<and> spec_chain_visitors env schema documents config sdkDocuments rootFragments keysBefore
          = Inr visitorsBefore
      \<and> getChildDocuments env sdkDocuments chainKey = Inr chainDocuments
      \<and> createVisitor env schema documents chainDocuments rootFragments config
            (Some chainKey) = Inl e"
  then show "snd (plugin env schema documents config) = Inl e"
    by (simp add: plugin_result snd_try_block spec_chain_visitors_append)
qed

theorem plugin_rethrows_unchanged_witness:
  "plugin (example_collaborators (Inl (Thrown (JString ''boom''))) [''team'']
       (\<lambda>k. Inr []) (Inr ''root'')) () [] example_config
     = ([LogInfo ''Processing documents'', LogFatal (Thrown (JString ''boom''))],
        Inl (Thrown (JString ''boom'')))
   \<and> snd (plugin (example_collaborators (Inr ()) [''team'', ''issue'']
       (\<lambda>k. if k = ''issue'' then Inl (Error ''no documents'') else Inr [])
       (Inr ''root'')) () [] example_config)
     = Inl (Error ''no documents'')
   \<and> \<not> isl (snd (plugin (example_collaborators (Inr ()) [''team'', ''issue'']
       (\<lambda>k. Inr []) (Inr ''root'')) () [] example_config))"
proof (intro conjI)
  have "try_block (example_collaborators (Inl (Thrown (JString ''boom''))) [''team'']
       (\<lambda>k. Inr []) (Inr ''root'')) () [] example_config []
    = ([LogInfo ''Processing documents''], Inl (Thrown (JString ''boom'')))"
    by (simp add: try_block_def example_collaborators_def and_then_logger and_then_call_Inl
        and_then_call_Inr)
  then show "plugin (example_collaborators (Inl (Thrown (JString ''boom''))) [''team'']
       (\<lambda>k. Inr []) (Inr ''root'')) () [] example_config
     = ([LogInfo ''Processing documents'', LogFatal (Thrown (JString ''boom''))],
        Inl (Thrown (JString ''boom'')))"
    using plugin_rethrows_unchanged
      [of "example_collaborators (Inl (Thrown (JString ''boom''))) [''team'']
             (\<lambda>k. Inr []) (Inr ''root'')"
          "()" "[]" example_config "Thrown (JString ''boom'')"]
    by simp
next
  show "snd (plugin (example_collaborators (Inr ()) [''team'', ''issue'']
       (\<lambda>k. if k = ''issue'' then Inl (Error ''no documents'') else Inr [])
       (Inr ''root'')) () [] example_config)
     = Inl (Error ''no documents'')"
    using plugin_rethrows_unchanged
      [of "example_collaborators (Inr ()) [''team'', ''issue'']
             (\<lambda>k. if k = ''issue'' then Inl (Error ''no documents'') else Inr [])
             (Inr ''root'')"
          "()" "[]" example_config "Error ''no documents''" _ "[]" "[]" "()" "[]" "''root''"
          "[''team'']" "''issue''" "[]" "[''chain team'']"]
    by (simp add: example_collaborators_def)
next
  show "\<not> isl (snd (plugin (example_collaborators (Inr ()) [''team'', ''issue'']
       (\<lambda>k. Inr []) (Inr ''root'')) () [] example_config))"
    using plugin_rethrows_unchanged
      [of "example_collaborators (Inr ()) [''team'', ''issue''] (\<lambda>k. Inr []) (Inr ''root'')"
          "()" "[]" example_config]
    by (simp add: example_collaborators_def example_config_def template_text_def)
qed

end
